theory Spec2Isabelle
  imports
    Main
    "HOL-Library.AList"
    "HOL-Library.Char_ord"
    "HOL-Library.List_Lexorder"
    "HOL-Library.Product_Lexorder"
begin

section \<open>The finance manager of Finance.py\<close>

text \<open>
  The development follows \<^verbatim>\<open>Finance.py\<close>: the classes \<^verbatim>\<open>FinancialRecord\<close>,
  \<^verbatim>\<open>User\<close> and \<^verbatim>\<open>FinanceManager\<close>. A method of \<^verbatim>\<open>FinanceManager\<close> becomes a
  function that takes the manager and gives what the method returns, what it prints and
  the manager afterwards.

  Conventions of the embedding:
  \<^item> a Python \<^verbatim>\<open>dict\<close> is an association list in insertion order with one pair per key;
    \<^verbatim>\<open>k in d\<close> is \<open>dict_contains\<close>, \<^verbatim>\<open>d.get(k, default)\<close> is \<open>dict_get\<close>, and the
    assignment \<^verbatim>\<open>d[k] = v\<close> is \<open>AList.update\<close>, which overwrites in place or appends
    a new key at the end, as Python does;
  \<^item> the amount of a record is of an arbitrary type \<open>'a\<close>, since the methods never
    inspect it; the sums of Python (\<^verbatim>\<open>sum\<close>) need \<open>0\<close> and \<open>+\<close> only, and the theorems
    about them are stated for an additive monoid or group (Python's \<^verbatim>\<open>int\<close>, for
    instance), where rounding plays no part;
  \<^item> \<^verbatim>\<open>datetime.now().strftime('%Y-%m-%d')\<close> is the parameter \<open>today\<close>;
  \<^item> a JSON file is modelled by the value \<^verbatim>\<open>json.load\<close> gives for it: the array of
    its entries, with the fields typed as \<^verbatim>\<open>json.dump\<close> writes them;
  \<^item> the pandas functions that the reports call are parameters: \<open>to_datetime\<close>,
    \<open>to_period\<close>, and \<open>series_sum\<close>, the sum of a column, which depends on the type
    pandas gives the column (\<open>int64_sum\<close> is the sum of an \<^verbatim>\<open>int64\<close> column, which wraps
    around); \<open>groupby_sum\<close> models the grouping.
\<close>

subsection \<open>Data\<close>

record 'a financial_record =
  description :: string
  amount :: 'a
  category :: string
  record_type :: string
  date :: string

record user =
  username :: string
  password :: string

text \<open>An entry of the records file: the dictionary of \<^verbatim>\<open>to_dict\<close> with the key
  \<^verbatim>\<open>'username'\<close> added. On reading, \<^verbatim>\<open>record.get('date')\<close> may find no date.\<close>

record 'a record_entry =
  e_username :: string
  e_description :: string
  e_amount :: 'a
  e_category :: string
  e_record_type :: string
  e_date :: "string option"

text \<open>A file on disk: \<open>Missing\<close> when it does not exist, \<open>Empty\<close> when it exists and
  has size 0, \<open>Corrupt\<close> when it has contents that \<^verbatim>\<open>json.load\<close> cannot read, otherwise
  the array it holds. \<^verbatim>\<open>json.load\<close> raises \<^verbatim>\<open>JSONDecodeError\<close> on an empty file and on a
  corrupt one.\<close>

datatype 'e json_file = Missing | Empty | Corrupt | Array "'e list"

text \<open>The exceptions of the libraries that the methods let through: \<^verbatim>\<open>json.load\<close> in
  \<^verbatim>\<open>load_users\<close>, which has no \<^verbatim>\<open>try\<close>, and \<^verbatim>\<open>pd.to_datetime\<close> in the reports.\<close>

datatype error = DateParseError | JSONDecodeError

record 'a manager =
  users :: "(string \<times> user) list"
  current_user :: "user option"
  financial_records :: "(string \<times> 'a financial_record list) list"
  users_file :: "user json_file"
  finance_file :: "'a record_entry json_file"

subsection \<open>Python helpers\<close>

definition dict_contains :: "('k \<times> 'v) list \<Rightarrow> 'k \<Rightarrow> bool" where
  "dict_contains d k = (case map_of d k of None \<Rightarrow> False | Some v \<Rightarrow> True)"

definition dict_get :: "('k \<times> 'v) list \<Rightarrow> 'k \<Rightarrow> 'v \<Rightarrow> 'v" where
  "dict_get d k dflt = (case map_of d k of None \<Rightarrow> dflt | Some v \<Rightarrow> v)"

text \<open>\<^verbatim>\<open>del xs[i]\<close> for an index already checked to be in range.\<close>

definition list_del :: "'v list \<Rightarrow> nat \<Rightarrow> 'v list" where
  "list_del xs i = take i xs @ drop (Suc i) xs"

text \<open>\<^verbatim>\<open>sum(...)\<close>: starts at 0 and adds the elements from left to right.\<close>

definition py_sum :: "'a::{zero,plus} list \<Rightarrow> 'a" where
  "py_sum xs = foldl (+) 0 xs"

subsection \<open>FinancialRecord and User\<close>

text \<open>\<^verbatim>\<open>self.date = date or datetime.now().strftime('%Y-%m-%d')\<close>: \<^verbatim>\<open>None\<close> and the
  empty string are both false.\<close>

definition FinancialRecord ::
  "string \<Rightarrow> string \<Rightarrow> 'a \<Rightarrow> string \<Rightarrow> string \<Rightarrow> string option \<Rightarrow> 'a financial_record" where
  "FinancialRecord today descr amt cat rtype d =
     \<lparr>description = descr, amount = amt, category = cat, record_type = rtype,
      date = (case d of None \<Rightarrow> today | Some x \<Rightarrow> if x = [] then today else x)\<rparr>"

definition to_entry :: "string \<Rightarrow> 'a financial_record \<Rightarrow> 'a record_entry" where
  "to_entry u r =
     \<lparr>e_username = u, e_description = description r, e_amount = amount r,
      e_category = category r, e_record_type = record_type r, e_date = Some (date r)\<rparr>"

definition User :: "string \<Rightarrow> string \<Rightarrow> user" where
  "User name pw = \<lparr>username = name, password = pw\<rparr>"

subsection \<open>Loading and saving\<close>

text \<open>\<^verbatim>\<open>load_users\<close> tests \<^verbatim>\<open>os.path.exists\<close> only and reads the file outside any
  \<^verbatim>\<open>try\<close>: an empty or corrupt users file ends the call with the exception.\<close>

definition load_users :: "user json_file \<Rightarrow> error + (string \<times> user) list" where
  "load_users f =
     (case f of
        Missing \<Rightarrow> Inr []
      | Empty \<Rightarrow> Inl JSONDecodeError
      | Corrupt \<Rightarrow> Inl JSONDecodeError
      | Array users_data \<Rightarrow>
          Inr (foldl (\<lambda>d u. AList.update (username u) (User (username u) (password u)) d)
                 [] users_data))"

definition save_users :: "'a manager \<Rightarrow> 'a manager" where
  "save_users s = s\<lparr>users_file := Array (map snd (users s))\<rparr>"

text \<open>The body of the loop of \<^verbatim>\<open>load_financial_records\<close>.\<close>

definition load_entry ::
  "string \<Rightarrow> (string \<times> 'a financial_record list) list \<Rightarrow> 'a record_entry
     \<Rightarrow> (string \<times> 'a financial_record list) list" where
  "load_entry today d e =
     (let name = e_username e;
          financial_record = FinancialRecord today (e_description e) (e_amount e)
                               (e_category e) (e_record_type e) (e_date e);
          d1 = (if \<not> dict_contains d name then AList.update name [] d else d)
      in AList.update name (dict_get d1 name [] @ [financial_record]) d1)"

text \<open>\<^verbatim>\<open>load_financial_records\<close> tests that the file exists and that its size is
  positive, and catches \<^verbatim>\<open>JSONDecodeError\<close>.\<close>

definition load_financial_records :: "string \<Rightarrow> 'a manager \<Rightarrow> string list \<times> 'a manager" where
  "load_financial_records today s =
     (case finance_file s of
        Missing \<Rightarrow> ([], s\<lparr>financial_records := []\<rparr>)
      | Empty \<Rightarrow> ([], s\<lparr>financial_records := []\<rparr>)
      | Corrupt \<Rightarrow>
          ([''Warning: The finance file is corrupted or invalid. Starting with an empty record set.''],
           s\<lparr>financial_records := []\<rparr>)
      | Array records_data \<Rightarrow>
          ([], s\<lparr>financial_records := foldl (load_entry today) [] records_data\<rparr>))"

definition records_to_save :: "(string \<times> 'a financial_record list) list \<Rightarrow> 'a record_entry list" where
  "records_to_save d = concat (map (\<lambda>(name, records). map (to_entry name) records) d)"

definition save_financial_records :: "'a manager \<Rightarrow> 'a manager" where
  "save_financial_records s = s\<lparr>finance_file := Array (records_to_save (financial_records s))\<rparr>"

text \<open>\<^verbatim>\<open>FinanceManager.__init__\<close>, from the two files found on disk: it loads the users
  first, and an exception there ends the construction.\<close>

definition FinanceManager ::
  "string \<Rightarrow> user json_file \<Rightarrow> 'a record_entry json_file
     \<Rightarrow> error + (string list \<times> 'a manager)" where
  "FinanceManager today uf ff =
     (case load_users uf of
        Inl e \<Rightarrow> Inl e
      | Inr loaded \<Rightarrow>
          Inr (load_financial_records today
                 \<lparr>users = loaded, current_user = None, financial_records = [],
                  users_file = uf, finance_file = ff\<rparr>))"

subsection \<open>Users and the session\<close>

definition register_user :: "'a manager \<Rightarrow> string \<Rightarrow> string \<Rightarrow> bool \<times> string \<times> 'a manager" where
  "register_user s name pw =
     (if dict_contains (users s) name then (False, ''Sorry! User already exists.'', s)
      else (True, ''User registered successfully.'',
            save_users (s\<lparr>users := AList.update name (User name pw) (users s)\<rparr>)))"

definition authenticate_user :: "'a manager \<Rightarrow> string \<Rightarrow> string \<Rightarrow> bool \<times> string \<times> 'a manager" where
  "authenticate_user s name pw =
     (case map_of (users s) name of
        None \<Rightarrow> (False, ''Invalid username or password. Try Again'', s)
      | Some u \<Rightarrow>
          if password u = pw
          then (True, ''Congrats! Authentication successful.'', s\<lparr>current_user := Some u\<rparr>)
          else (False, ''Invalid username or password. Try Again'', s))"

subsection \<open>The record store\<close>

text \<open>\<^verbatim>\<open>self.financial_records.get(name, [])\<close>, the expression every method reads the
  records of a user with.\<close>

definition user_records :: "'a manager \<Rightarrow> string \<Rightarrow> 'a financial_record list" where
  "user_records s name = dict_get (financial_records s) name []"

definition add_record ::
  "string \<Rightarrow> 'a manager \<Rightarrow> string \<Rightarrow> 'a \<Rightarrow> string \<Rightarrow> string \<Rightarrow> string \<times> 'a manager" where
  "add_record today s descr amt cat rtype =
     (case current_user s of
        None \<Rightarrow> (''Please log in to add records.'', s)
      | Some u \<Rightarrow>
          let record = FinancialRecord today descr amt cat rtype None;
              d1 = (if \<not> dict_contains (financial_records s) (username u)
                    then AList.update (username u) [] (financial_records s)
                    else financial_records s);
              d2 = AList.update (username u) (dict_get d1 (username u) [] @ [record]) d1
          in (''Record added successfully!!!.'',
              save_financial_records (s\<lparr>financial_records := d2\<rparr>)))"

text \<open>In \<^verbatim>\<open>delete_record\<close> and \<^verbatim>\<open>update_record\<close> the guard has made sure that the list
  is not empty, so the key is in the dictionary and \<^verbatim>\<open>self.financial_records[name]\<close>
  is the list the guard measured.\<close>

definition delete_record :: "'a manager \<Rightarrow> int \<Rightarrow> string \<times> 'a manager" where
  "delete_record s record_index =
     (case current_user s of
        None \<Rightarrow> (''Invalid record index. Try Again!'', s)
      | Some u \<Rightarrow>
          let records = user_records s (username u) in
          if record_index < 0 \<or> record_index \<ge> int (length records)
          then (''Invalid record index. Try Again!'', s)
          else (''Record deleted successfully!!!'',
                save_financial_records
                  (s\<lparr>financial_records :=
                       AList.update (username u) (list_del records (nat record_index))
                         (financial_records s)\<rparr>)))"

definition update_record ::
  "'a manager \<Rightarrow> int \<Rightarrow> string option \<Rightarrow> 'a option \<Rightarrow> string option \<Rightarrow> string option
     \<Rightarrow> string \<times> 'a manager" where
  "update_record s record_index descr amt cat rtype =
     (case current_user s of
        None \<Rightarrow> (''Invalid record index.'', s)
      | Some u \<Rightarrow>
          let records = user_records s (username u) in
          if record_index < 0 \<or> record_index \<ge> int (length records)
          then (''Invalid record index.'', s)
          else
            let record = records ! nat record_index;
                record1 = (case descr of None \<Rightarrow> record | Some x \<Rightarrow> record\<lparr>description := x\<rparr>);
                record2 = (case amt of None \<Rightarrow> record1 | Some x \<Rightarrow> record1\<lparr>amount := x\<rparr>);
                record3 = (case cat of None \<Rightarrow> record2 | Some x \<Rightarrow> record2\<lparr>category := x\<rparr>);
                record4 = (case rtype of None \<Rightarrow> record3 | Some x \<Rightarrow> record3\<lparr>record_type := x\<rparr>)
            in (''Congrats! Record updated successfully.'',
                save_financial_records
                  (s\<lparr>financial_records :=
                       AList.update (username u) (records[nat record_index := record4])
                         (financial_records s)\<rparr>)))"

text \<open>What \<^verbatim>\<open>display_records\<close> prints: a line of text, or the line of a record, given
  by the index and the record that the f-string formats.\<close>

datatype 'a display_line = Text string | Entry nat "'a financial_record"

definition display_records :: "'a manager \<Rightarrow> 'a display_line list \<times> 'a manager" where
  "display_records s =
     (case current_user s of
        None \<Rightarrow> ([Text ''Please log in to view your records.''], s)
      | Some u \<Rightarrow>
          if \<not> dict_contains (financial_records s) (username u)
             \<or> dict_get (financial_records s) (username u) [] = []
          then ([Text ''No records found at this time.''], s)
          else (Text (CHR 0x0A # ''Here are Your Financial Records:'')
                  # map (\<lambda>(index, record). Entry index record)
                      (enumerate 0 (dict_get (financial_records s) (username u) [])),
                s))"

subsection \<open>Reports\<close>

definition calculate_totals ::
  "'a::{zero,plus} manager \<Rightarrow> ('a option \<times> 'a option) \<times> string list \<times> 'a manager" where
  "calculate_totals s =
     (case current_user s of
        None \<Rightarrow> ((None, None), [''Please log in to calculate total income and expense.''], s)
      | Some u \<Rightarrow>
          let total_income = py_sum (map amount
                (filter (\<lambda>record. record_type record = ''income'') (user_records s (username u))));
              total_expenses = py_sum (map amount
                (filter (\<lambda>record. record_type record = ''expense'') (user_records s (username u))))
          in ((Some total_income, Some total_expenses), [], s))"

definition calculate_savings ::
  "'a::{zero,plus,minus} manager \<Rightarrow> 'a option \<times> string list \<times> 'a manager" where
  "calculate_savings s =
     (case current_user s of
        None \<Rightarrow> (None, [''Please log in to calculate savings.''], s)
      | Some u \<Rightarrow>
          let total_income = py_sum (map amount
                (filter (\<lambda>record. record_type record = ''income'') (user_records s (username u))));
              total_expenses = py_sum (map amount
                (filter (\<lambda>record. record_type record = ''expense'') (user_records s (username u))));
              savings = total_income - total_expenses
          in (Some savings, [], s))"

text \<open>\<^verbatim>\<open>df.groupby(keys)['amount'].sum().reset_index()\<close> of pandas: one row for each
  key that occurs, the keys in ascending order, each with the sum of the amounts of its
  rows, in the order of the rows. How pandas adds depends on the type it has given the
  column, so the sum of a column is the parameter \<open>series_sum\<close>.\<close>

definition groupby_sum :: "('a list \<Rightarrow> 'a) \<Rightarrow> ('k::linorder \<times> 'a) list \<Rightarrow> ('k \<times> 'a) list" where
  "groupby_sum series_sum rows =
     map (\<lambda>k. (k, series_sum (map snd (filter (\<lambda>row. fst row = k) rows))))
       (sort (remdups (map fst rows)))"

text \<open>The sum of an \<^verbatim>\<open>int64\<close> column, the type pandas gives a column of Python integers
  that all lie between \<open>- 2 ^ 63\<close> and \<open>2 ^ 63 - 1\<close>: every addition wraps around in 64
  bits, two's complement.\<close>

definition wrap_int64 :: "int \<Rightarrow> int" where
  "wrap_int64 n = (n + 9223372036854775808) mod 18446744073709551616 - 9223372036854775808"

definition int64_sum :: "int list \<Rightarrow> int" where
  "int64_sum xs = foldl (\<lambda>acc x. wrap_int64 (acc + x)) 0 xs"

text \<open>\<^verbatim>\<open>pd.to_datetime\<close> raises on a column it cannot read: the parameter
  \<open>to_datetime\<close> gives \<open>None\<close> then, and the method ends with the error.\<close>

datatype ('k, 'a) printed = Message string | Frame "('k \<times> 'a) list"

definition generate_report ::
  "(string list \<Rightarrow> 't list option) \<Rightarrow> (string \<Rightarrow> 't \<Rightarrow> 'p::linorder) \<Rightarrow> ('a list \<Rightarrow> 'a)
     \<Rightarrow> 'a manager \<Rightarrow> string
     \<Rightarrow> error + ((('p \<times> string \<times> string) \<times> 'a) list option
                  \<times> ('p \<times> string \<times> string, 'a) printed \<times> 'a manager)" where
  "generate_report to_datetime to_period series_sum s period =
     (case current_user s of
        None \<Rightarrow> Inr (None, Message ''Please log in to generate reports.'', s)
      | Some u \<Rightarrow>
          if user_records s (username u) = []
          then Inr (None, Message ''No records available for generating reports.'', s)
          else
            let df = user_records s (username u) in
            (case to_datetime (map date df) of
              None \<Rightarrow> Inl DateParseError
            | Some dates \<Rightarrow>
                if period = ''monthly''
                then let report = groupby_sum series_sum (map (\<lambda>(t, record).
                             ((to_period ''M'' t, record_type record, category record), amount record))
                           (zip dates df))
                     in Inr (Some report, Frame report, s)
                else if period = ''weekly''
                then let report = groupby_sum series_sum (map (\<lambda>(t, record).
                             ((to_period ''W'' t, record_type record, category record), amount record))
                           (zip dates df))
                     in Inr (Some report, Frame report, s)
                else Inr (None, Message ''Invalid period specified.'', s)))"

definition view_spending_distribution ::
  "(string list \<Rightarrow> 't list option) \<Rightarrow> ('a list \<Rightarrow> 'a) \<Rightarrow> 'a manager
     \<Rightarrow> error + ((string, 'a) printed list \<times> 'a manager)" where
  "view_spending_distribution to_datetime series_sum s =
     (case current_user s of
        None \<Rightarrow> Inr ([Message ''Please log in to view spending distribution.''], s)
      | Some u \<Rightarrow>
          if user_records s (username u) = []
          then Inr ([Message ''No records available to calculate spending distribution.''], s)
          else
            let df = user_records s (username u) in
            (case to_datetime (map date df) of
              None \<Rightarrow> Inl DateParseError
            | Some dates \<Rightarrow>
                let expense_df = filter (\<lambda>record. record_type record = ''expense'') df in
                if expense_df = [] then Inr ([Message ''No expenses recorded.''], s)
                else
                  let spending_distribution =
                        groupby_sum series_sum
                          (map (\<lambda>record. (category record, amount record)) expense_df)
                  in Inr ([Message (CHR 0x0A # ''Spending Distribution by Category:''),
                           Frame spending_distribution], s)))"

subsection \<open>Sequences of calls and sample managers\<close>

text \<open>A run of calls of \<^verbatim>\<open>add_record\<close>, each with the date of its day and its four
  arguments.\<close>

definition add_records ::
  "'a manager \<Rightarrow> (string \<times> string \<times> 'a \<times> string \<times> string) list \<Rightarrow> 'a manager" where
  "add_records s calls =
     foldl (\<lambda>s (today, descr, amt, cat, rtype). snd (add_record today s descr amt cat rtype)) s calls"

definition added_record :: "string \<times> string \<times> 'a \<times> string \<times> string \<Rightarrow> 'a financial_record" where
  "added_record call =
     (case call of (today, descr, amt, cat, rtype) \<Rightarrow>
        \<lparr>description = descr, amount = amt, category = cat, record_type = rtype, date = today\<rparr>)"

definition ann :: user where
  "ann = \<lparr>username = ''ann'', password = ''Secret1''\<rparr>"

definition salary :: "int financial_record" where
  "salary = \<lparr>description = ''salary'', amount = 100, category = ''job'',
             record_type = ''income'', date = ''2024-01-05''\<rparr>"

definition lunch :: "int financial_record" where
  "lunch = \<lparr>description = ''lunch'', amount = 30, category = ''food'',
            record_type = ''expense'', date = ''2024-01-06''\<rparr>"

definition expense :: "string \<Rightarrow> int \<Rightarrow> int financial_record" where
  "expense cat amt = \<lparr>description = ''paid'', amount = amt, category = cat,
                      record_type = ''expense'', date = ''2024-02-01''\<rparr>"

definition manager_of :: "user option \<Rightarrow> (string \<times> int financial_record list) list \<Rightarrow> int manager" where
  "manager_of cu d =
     \<lparr>users = [(''ann'', ann)], current_user = cu, financial_records = d,
      users_file = Array [ann], finance_file = Array (records_to_save d)\<rparr>"

text \<open>Stand-ins for the pandas parameters \<open>to_datetime\<close> and \<open>to_period\<close> in the
  examples: every column of dates is read, and the period of a date is its first seven
  characters, the year and the month. The amounts of the examples are Python integers in
  the range of \<^verbatim>\<open>int64\<close>, so their columns are summed by \<open>int64_sum\<close>.\<close>

definition sample_to_datetime :: "string list \<Rightarrow> string list option" where
  "sample_to_datetime ds = Some ds"

definition sample_to_period :: "string \<Rightarrow> string \<Rightarrow> string" where
  "sample_to_period freq t = take 7 t"

section \<open>Auxiliary facts\<close>


lemma py_sum_sum_list: "py_sum xs = sum_list (xs :: 'a::monoid_add list)"
proof -
  have "foldl (+) a xs = a + sum_list xs" for a :: 'a
    by (induction xs arbitrary: a) (simp_all add: add.assoc)
  then show ?thesis by (simp add: py_sum_def)
qed

lemma user_records_update:
  "user_records (save_financial_records (s\<lparr>financial_records := AList.update k v (financial_records s)\<rparr>)) name
     = (if name = k then v else user_records s name)"
  by (simp add: user_records_def dict_get_def save_financial_records_def update_conv')

lemma map_of_records_update:
  "name \<noteq> k \<Longrightarrow>
   map_of (financial_records (save_financial_records (s\<lparr>financial_records := AList.update k v (financial_records s)\<rparr>))) name
     = map_of (financial_records s) name"
  by (simp add: save_financial_records_def update_conv')

lemma saved_fields:
  "users (save_financial_records s) = users s"
  "current_user (save_financial_records s) = current_user s"
  "users_file (save_financial_records s) = users_file s"
  "finance_file (save_financial_records s) = Array (records_to_save (financial_records (save_financial_records s)))"
  by (simp_all add: save_financial_records_def)

lemma list_del_length: "i < length xs \<Longrightarrow> length (list_del xs i) + 1 = length xs"
  by (simp add: list_del_def)

lemma list_del_before: "j < i \<Longrightarrow> i < length xs \<Longrightarrow> list_del xs i ! j = xs ! j"
  by (simp add: list_del_def nth_append)

lemma list_del_after: "i \<le> j \<Longrightarrow> j + 1 < length xs \<Longrightarrow> list_del xs i ! j = xs ! (j + 1)"
  by (simp add: list_del_def nth_append min_def)

lemma sample_records:
  "user_records (manager_of cu d) name = dict_get d name []"
  "current_user (manager_of cu d) = cu"
  by (simp_all add: manager_of_def user_records_def)

section \<open>Deleting a record\<close>

lemma delete_record_valid:
  assumes "current_user s = Some u" "0 \<le> i" "i < int (length (user_records s (username u)))"
  shows "delete_record s i =
           (''Record deleted successfully!!!'',
            save_financial_records
              (s\<lparr>financial_records :=
                   AList.update (username u) (list_del (user_records s (username u)) (nat i))
                     (financial_records s)\<rparr>))"
  using assms by (simp add: delete_record_def Let_def)

text \<open>
  Claim C1. When a user is logged in and \<open>0 \<le> i < count\<close>, \<open>delete_record\<close> removes
  exactly the record at position \<open>i\<close> of that user: the records before \<open>i\<close> stay where
  they are, every later record moves down by one, the records of the other users and the
  rest of the manager are untouched, and the records file is rewritten. When nobody is
  logged in, or \<open>i\<close> is negative, or \<open>i\<close> is not below the count, it prints the
  invalid-index message and the manager (records and files) is the one it was given.
\<close>
theorem delete_record_removes_or_rejects:
  "(\<forall>u. current_user s = Some u \<and> 0 \<le> i \<and> i < int (length (user_records s (username u))) \<longrightarrow>
      (\<exists>s'. delete_record s i = (''Record deleted successfully!!!'', s') \<and>
         user_records s' (username u)
           = take (nat i) (user_records s (username u)) @ drop (nat i + 1) (user_records s (username u)) \<and>
         length (user_records s' (username u)) + 1 = length (user_records s (username u)) \<and>
         (\<forall>j. j < nat i \<longrightarrow> user_records s' (username u) ! j = user_records s (username u) ! j) \<and>
         (\<forall>j. nat i \<le> j \<and> j < length (user_records s' (username u)) \<longrightarrow>
              user_records s' (username u) ! j = user_records s (username u) ! (j + 1)) \<and>
         (\<forall>name. name \<noteq> username u \<longrightarrow>
              map_of (financial_records s') name = map_of (financial_records s) name) \<and>
         users s' = users s \<and> current_user s' = current_user s \<and> users_file s' = users_file s \<and>
         finance_file s' = Array (records_to_save (financial_records s'))))
   \<and> (current_user s = None \<or> i < 0
        \<or> (\<exists>u. current_user s = Some u \<and> int (length (user_records s (username u))) \<le> i) \<longrightarrow>
      delete_record s i = (''Invalid record index. Try Again!'', s))"
proof (intro conjI allI impI)
  fix u
  assume h: "current_user s = Some u \<and> 0 \<le> i \<and> i < int (length (user_records s (username u)))"
  let ?old = "user_records s (username u)"
  let ?s' = "save_financial_records
              (s\<lparr>financial_records :=
                   AList.update (username u) (list_del ?old (nat i)) (financial_records s)\<rparr>)"
  from h have lt: "nat i < length ?old" by linarith
  have new: "user_records ?s' (username u) = list_del ?old (nat i)"
    by (simp add: user_records_update)
  have "delete_record s i = (''Record deleted successfully!!!'', ?s')"
    using h by (simp add: delete_record_valid)
  moreover have "user_records ?s' (username u) = take (nat i) ?old @ drop (nat i + 1) ?old"
    by (subst new) (simp add: list_del_def)
  moreover have "length (user_records ?s' (username u)) + 1 = length ?old"
    using lt by (simp only: new list_del_length)
  moreover have "\<forall>j. j < nat i \<longrightarrow> user_records ?s' (username u) ! j = ?old ! j"
    using lt by (simp add: new list_del_before)
  moreover have "\<forall>j. nat i \<le> j \<and> j < length (user_records ?s' (username u)) \<longrightarrow>
              user_records ?s' (username u) ! j = ?old ! (j + 1)"
    using lt list_del_length[OF lt] by (simp add: new list_del_after)
  moreover have "\<forall>name. name \<noteq> username u \<longrightarrow>
              map_of (financial_records ?s') name = map_of (financial_records s) name"
    by (simp add: map_of_records_update)
  moreover have "users ?s' = users s \<and> current_user ?s' = current_user s \<and> users_file ?s' = users_file s \<and>
         finance_file ?s' = Array (records_to_save (financial_records ?s'))"
    by (simp add: save_financial_records_def)
  ultimately show "\<exists>s'. delete_record s i = (''Record deleted successfully!!!'', s') \<and>
         user_records s' (username u)
           = take (nat i) (user_records s (username u)) @ drop (nat i + 1) (user_records s (username u)) \<and>
         length (user_records s' (username u)) + 1 = length (user_records s (username u)) \<and>
         (\<forall>j. j < nat i \<longrightarrow> user_records s' (username u) ! j = user_records s (username u) ! j) \<and>
         (\<forall>j. nat i \<le> j \<and> j < length (user_records s' (username u)) \<longrightarrow>
              user_records s' (username u) ! j = user_records s (username u) ! (j + 1)) \<and>
         (\<forall>name. name \<noteq> username u \<longrightarrow>
              map_of (financial_records s') name = map_of (financial_records s) name) \<and>
         users s' = users s \<and> current_user s' = current_user s \<and> users_file s' = users_file s \<and>
         finance_file s' = Array (records_to_save (financial_records s'))"
    by blast
next
  assume "current_user s = None \<or> i < 0
        \<or> (\<exists>u. current_user s = Some u \<and> int (length (user_records s (username u))) \<le> i)"
  then show "delete_record s i = (''Invalid record index. Try Again!'', s)"
    by (auto simp add: delete_record_def Let_def split: option.splits)
qed

theorem delete_record_witness:
  "current_user (manager_of (Some ann) [(''ann'', [salary, lunch, expense ''rent'' 50])]) = Some ann
   \<and> (0::int) \<le> 1
   \<and> 1 < int (length (user_records (manager_of (Some ann) [(''ann'', [salary, lunch, expense ''rent'' 50])]) (username ann)))
   \<and> (\<exists>s'. delete_record (manager_of (Some ann) [(''ann'', [salary, lunch, expense ''rent'' 50])]) 1
              = (''Record deleted successfully!!!'', s')
         \<and> user_records s' ''ann'' = [salary, expense ''rent'' 50])
   \<and> delete_record (manager_of (Some ann) [(''ann'', [salary, lunch])]) 2
       = (''Invalid record index. Try Again!'', manager_of (Some ann) [(''ann'', [salary, lunch])])
   \<and> delete_record (manager_of (Some ann) [(''ann'', [salary, lunch])]) (- 1)
       = (''Invalid record index. Try Again!'', manager_of (Some ann) [(''ann'', [salary, lunch])])
   \<and> delete_record (manager_of None [(''ann'', [salary, lunch])]) 0
       = (''Invalid record index. Try Again!'', manager_of None [(''ann'', [salary, lunch])])"
proof -
  let ?m = "manager_of (Some ann) [(''ann'', [salary, lunch, expense ''rent'' 50])]"
  have h: "current_user ?m = Some ann \<and> (0::int) \<le> 1 \<and> 1 < int (length (user_records ?m (username ann)))"
    by (simp add: sample_records dict_get_def ann_def)
  have n: "username ann = ''ann''" by (simp add: ann_def)
  have r: "user_records ?m ''ann'' = [salary, lunch, expense ''rent'' 50]"
    by (simp add: sample_records dict_get_def)
  from delete_record_removes_or_rejects [of ?m 1] h
  have "\<exists>s'. delete_record ?m 1 = (''Record deleted successfully!!!'', s')
         \<and> user_records s' (username ann)
           = take (nat 1) (user_records ?m (username ann)) @ drop (nat 1 + 1) (user_records ?m (username ann))"
    by blast
  then have a: "\<exists>s'. delete_record ?m 1 = (''Record deleted successfully!!!'', s')
         \<and> user_records s' ''ann'' = [salary, expense ''rent'' 50]"
    by (simp add: n r)
  let ?m2 = "manager_of (Some ann) [(''ann'', [salary, lunch])]"
  have "current_user ?m2 = Some ann \<and> int (length (user_records ?m2 (username ann))) \<le> 2"
    by (simp add: sample_records dict_get_def ann_def)
  with delete_record_removes_or_rejects [of ?m2 2]
  have b: "delete_record ?m2 2 = (''Invalid record index. Try Again!'', ?m2)" by blast
  from delete_record_removes_or_rejects [of ?m2 "- 1"]
  have c: "delete_record ?m2 (- 1) = (''Invalid record index. Try Again!'', ?m2)" by simp
  let ?m3 = "manager_of None [(''ann'', [salary, lunch])]"
  have "current_user ?m3 = None" by (simp add: sample_records)
  with delete_record_removes_or_rejects [of ?m3 0]
  have d: "delete_record ?m3 0 = (''Invalid record index. Try Again!'', ?m3)" by blast
  from h a b c d show ?thesis by blast
qed


section \<open>Updating a record\<close>

lemma update_record_valid:
  assumes "current_user s = Some u" "0 \<le> i" "i < int (length (user_records s (username u)))"
  shows "update_record s i descr amt cat rtype =
           (''Congrats! Record updated successfully.'',
            save_financial_records
              (s\<lparr>financial_records :=
                   AList.update (username u)
                     ((user_records s (username u))[nat i :=
                        (user_records s (username u) ! nat i)
                          \<lparr>description := (case descr of None \<Rightarrow> description (user_records s (username u) ! nat i) | Some x \<Rightarrow> x),
                           amount := (case amt of None \<Rightarrow> amount (user_records s (username u) ! nat i) | Some x \<Rightarrow> x),
                           category := (case cat of None \<Rightarrow> category (user_records s (username u) ! nat i) | Some x \<Rightarrow> x),
                           record_type := (case rtype of None \<Rightarrow> record_type (user_records s (username u) ! nat i) | Some x \<Rightarrow> x)\<rparr>])
                     (financial_records s)\<rparr>))"
  using assms by (simp add: update_record_def Let_def split: option.splits)

text \<open>
  Claim C3 as stated says that an empty field is not supplied and so leaves the value.
  \<open>update_record\<close> tests the arguments with \<^verbatim>\<open>is not None\<close> only: called with the empty
  string for the description, it replaces the description \<open>''salary''\<close> by the empty
  string.
\<close>
theorem update_record_empty_string_counterexample:
  "description (user_records (manager_of (Some ann) [(''ann'', [salary])]) ''ann'' ! 0) = ''salary''
   \<and> description
        (user_records
           (snd (update_record (manager_of (Some ann) [(''ann'', [salary])]) 0 (Some []) None None None))
           ''ann'' ! 0) = []"
  by (simp add: update_record_def Let_def sample_records dict_get_def ann_def salary_def
        user_records_update)

text \<open>
  Claim C3, amended. For an index in range and a logged-in user, each of the four fields
  of the record at that index takes the argument given for it when the argument is not
  \<open>None\<close>, and keeps its value when the argument is \<open>None\<close>; the date is kept; every
  other record of the user and the records of all other users are unchanged. An index out
  of range or a missing session prints the invalid-index message and leaves the manager
  unchanged. (An empty string is an argument like any other and is written into the
  record, see the counterexample above.)
\<close>
theorem update_record_overwrites_given_fields:
  "(\<forall>u. current_user s = Some u \<and> 0 \<le> i \<and> i < int (length (user_records s (username u))) \<longrightarrow>
      (\<exists>s'. update_record s i descr amt cat rtype = (''Congrats! Record updated successfully.'', s') \<and>
         length (user_records s' (username u)) = length (user_records s (username u)) \<and>
         description (user_records s' (username u) ! nat i)
           = (case descr of None \<Rightarrow> description (user_records s (username u) ! nat i) | Some x \<Rightarrow> x) \<and>
         amount (user_records s' (username u) ! nat i)
           = (case amt of None \<Rightarrow> amount (user_records s (username u) ! nat i) | Some x \<Rightarrow> x) \<and>
         category (user_records s' (username u) ! nat i)
           = (case cat of None \<Rightarrow> category (user_records s (username u) ! nat i) | Some x \<Rightarrow> x) \<and>
         record_type (user_records s' (username u) ! nat i)
           = (case rtype of None \<Rightarrow> record_type (user_records s (username u) ! nat i) | Some x \<Rightarrow> x) \<and>
         date (user_records s' (username u) ! nat i) = date (user_records s (username u) ! nat i) \<and>
         (\<forall>j. j < length (user_records s (username u)) \<and> j \<noteq> nat i \<longrightarrow>
              user_records s' (username u) ! j = user_records s (username u) ! j) \<and>
         (\<forall>name. name \<noteq> username u \<longrightarrow>
              map_of (financial_records s') name = map_of (financial_records s) name) \<and>
         users s' = users s \<and> current_user s' = current_user s \<and> users_file s' = users_file s \<and>
         finance_file s' = Array (records_to_save (financial_records s'))))
   \<and> (current_user s = None \<or> i < 0
        \<or> (\<exists>u. current_user s = Some u \<and> int (length (user_records s (username u))) \<le> i) \<longrightarrow>
      update_record s i descr amt cat rtype = (''Invalid record index.'', s))"
proof (intro conjI allI impI)
  fix u
  assume h: "current_user s = Some u \<and> 0 \<le> i \<and> i < int (length (user_records s (username u)))"
  let ?old = "user_records s (username u)"
  from h have lt: "nat i < length ?old" by linarith
  define r' where "r' = (?old ! nat i)
       \<lparr>description := (case descr of None \<Rightarrow> description (?old ! nat i) | Some x \<Rightarrow> x),
        amount := (case amt of None \<Rightarrow> amount (?old ! nat i) | Some x \<Rightarrow> x),
        category := (case cat of None \<Rightarrow> category (?old ! nat i) | Some x \<Rightarrow> x),
        record_type := (case rtype of None \<Rightarrow> record_type (?old ! nat i) | Some x \<Rightarrow> x)\<rparr>"
  have upd: "update_record s i descr amt cat rtype =
           (''Congrats! Record updated successfully.'',
            save_financial_records
              (s\<lparr>financial_records :=
                   AList.update (username u) (?old[nat i := r']) (financial_records s)\<rparr>))"
    using h update_record_valid [of s u i descr amt cat rtype] by (simp only: r'_def)
  have d: "description r' = (case descr of None \<Rightarrow> description (?old ! nat i) | Some x \<Rightarrow> x)"
    and a: "amount r' = (case amt of None \<Rightarrow> amount (?old ! nat i) | Some x \<Rightarrow> x)"
    and c: "category r' = (case cat of None \<Rightarrow> category (?old ! nat i) | Some x \<Rightarrow> x)"
    and t: "record_type r' = (case rtype of None \<Rightarrow> record_type (?old ! nat i) | Some x \<Rightarrow> x)"
    and dt: "date r' = date (?old ! nat i)"
    by (simp_all add: r'_def)
  let ?s' = "save_financial_records
              (s\<lparr>financial_records :=
                   AList.update (username u) (?old[nat i := r']) (financial_records s)\<rparr>)"
  have new: "user_records ?s' (username u) = ?old[nat i := r']"
    by (simp add: user_records_update)
  have at_i: "user_records ?s' (username u) ! nat i = r'"
    using lt by (simp add: new)
  have len: "length (user_records ?s' (username u)) = length ?old"
    by (simp add: new)
  have others: "\<forall>j. j < length ?old \<and> j \<noteq> nat i \<longrightarrow> user_records ?s' (username u) ! j = ?old ! j"
    by (simp add: new)
  have frame: "\<forall>name. name \<noteq> username u \<longrightarrow>
              map_of (financial_records ?s') name = map_of (financial_records s) name"
    by (simp add: map_of_records_update)
  have rest: "users ?s' = users s \<and> current_user ?s' = current_user s \<and> users_file ?s' = users_file s \<and>
         finance_file ?s' = Array (records_to_save (financial_records ?s'))"
    by (simp add: save_financial_records_def)
  show "\<exists>s'. update_record s i descr amt cat rtype = (''Congrats! Record updated successfully.'', s') \<and>
         length (user_records s' (username u)) = length (user_records s (username u)) \<and>
         description (user_records s' (username u) ! nat i)
           = (case descr of None \<Rightarrow> description (user_records s (username u) ! nat i) | Some x \<Rightarrow> x) \<and>
         amount (user_records s' (username u) ! nat i)
           = (case amt of None \<Rightarrow> amount (user_records s (username u) ! nat i) | Some x \<Rightarrow> x) \<and>
         category (user_records s' (username u) ! nat i)
           = (case cat of None \<Rightarrow> category (user_records s (username u) ! nat i) | Some x \<Rightarrow> x) \<and>
         record_type (user_records s' (username u) ! nat i)
           = (case rtype of None \<Rightarrow> record_type (user_records s (username u) ! nat i) | Some x \<Rightarrow> x) \<and>
         date (user_records s' (username u) ! nat i) = date (user_records s (username u) ! nat i) \<and>
         (\<forall>j. j < length (user_records s (username u)) \<and> j \<noteq> nat i \<longrightarrow>
              user_records s' (username u) ! j = user_records s (username u) ! j) \<and>
         (\<forall>name. name \<noteq> username u \<longrightarrow>
              map_of (financial_records s') name = map_of (financial_records s) name) \<and>
         users s' = users s \<and> current_user s' = current_user s \<and> users_file s' = users_file s \<and>
         finance_file s' = Array (records_to_save (financial_records s'))"
    apply (rule exI [of _ ?s'])
    apply (simp only: at_i)
    using upd d a c t dt len others frame rest apply blast
    done
next
  assume "current_user s = None \<or> i < 0
        \<or> (\<exists>u. current_user s = Some u \<and> int (length (user_records s (username u))) \<le> i)"
  then show "update_record s i descr amt cat rtype = (''Invalid record index.'', s)"
    by (auto simp add: update_record_def Let_def split: option.splits)
qed

theorem update_record_witness:
  "current_user (manager_of (Some ann) [(''ann'', [salary, lunch])]) = Some ann
   \<and> (0::int) \<le> 1
   \<and> 1 < int (length (user_records (manager_of (Some ann) [(''ann'', [salary, lunch])]) (username ann)))
   \<and> (\<exists>s'. update_record (manager_of (Some ann) [(''ann'', [salary, lunch])]) 1 None (Some 45) None None
              = (''Congrats! Record updated successfully.'', s')
         \<and> amount (user_records s' ''ann'' ! 1) = 45
         \<and> description (user_records s' ''ann'' ! 1) = ''lunch''
         \<and> category (user_records s' ''ann'' ! 1) = ''food''
         \<and> record_type (user_records s' ''ann'' ! 1) = ''expense''
         \<and> date (user_records s' ''ann'' ! 1) = ''2024-01-06''
         \<and> user_records s' ''ann'' ! 0 = salary)
   \<and> update_record (manager_of (Some ann) [(''ann'', [salary, lunch])]) 2 None (Some 45) None None
       = (''Invalid record index.'', manager_of (Some ann) [(''ann'', [salary, lunch])])"
proof -
  let ?m = "manager_of (Some ann) [(''ann'', [salary, lunch])]"
  have h: "current_user ?m = Some ann \<and> (0::int) \<le> 1 \<and> 1 < int (length (user_records ?m (username ann)))"
    by (simp add: sample_records dict_get_def ann_def)
  have n: "username ann = ''ann''" by (simp add: ann_def)
  have r: "user_records ?m ''ann'' = [salary, lunch]"
    by (simp add: sample_records dict_get_def)
  from update_record_overwrites_given_fields [of ?m 1 None "Some 45" None None] h
  obtain s' where s': "update_record ?m 1 None (Some 45) None None = (''Congrats! Record updated successfully.'', s')"
    and f: "description (user_records s' (username ann) ! nat 1)
           = (case None of None \<Rightarrow> description (user_records ?m (username ann) ! nat 1) | Some x \<Rightarrow> x)"
         "amount (user_records s' (username ann) ! nat 1)
           = (case Some 45 of None \<Rightarrow> amount (user_records ?m (username ann) ! nat 1) | Some x \<Rightarrow> x)"
         "category (user_records s' (username ann) ! nat 1)
           = (case None of None \<Rightarrow> category (user_records ?m (username ann) ! nat 1) | Some x \<Rightarrow> x)"
         "record_type (user_records s' (username ann) ! nat 1)
           = (case None of None \<Rightarrow> record_type (user_records ?m (username ann) ! nat 1) | Some x \<Rightarrow> x)"
         "date (user_records s' (username ann) ! nat 1) = date (user_records ?m (username ann) ! nat 1)"
    and g: "\<forall>j. j < length (user_records ?m (username ann)) \<and> j \<noteq> nat 1 \<longrightarrow>
              user_records s' (username ann) ! j = user_records ?m (username ann) ! j"
    by blast
  from f have f': "amount (user_records s' ''ann'' ! 1) = 45"
         "description (user_records s' ''ann'' ! 1) = ''lunch''"
         "category (user_records s' ''ann'' ! 1) = ''food''"
         "record_type (user_records s' ''ann'' ! 1) = ''expense''"
         "date (user_records s' ''ann'' ! 1) = ''2024-01-06''"
    unfolding n r by (simp_all add: lunch_def)
  from g [rule_format, of 0] have g': "user_records s' ''ann'' ! 0 = salary"
    unfolding n r by simp
  from s' f' g' have a: "\<exists>s'. update_record ?m 1 None (Some 45) None None
              = (''Congrats! Record updated successfully.'', s')
         \<and> amount (user_records s' ''ann'' ! 1) = 45
         \<and> description (user_records s' ''ann'' ! 1) = ''lunch''
         \<and> category (user_records s' ''ann'' ! 1) = ''food''
         \<and> record_type (user_records s' ''ann'' ! 1) = ''expense''
         \<and> date (user_records s' ''ann'' ! 1) = ''2024-01-06''
         \<and> user_records s' ''ann'' ! 0 = salary"
    by blast
  have "current_user ?m = Some ann \<and> int (length (user_records ?m (username ann))) \<le> 2"
    by (simp add: sample_records dict_get_def ann_def)
  with update_record_overwrites_given_fields [of ?m 2 None "Some 45" None None]
  have b: "update_record ?m 2 None (Some 45) None None = (''Invalid record index.'', ?m)" by blast
  from h a b show ?thesis by blast
qed

section \<open>Registration and authentication\<close>

lemma dict_contains_iff: "dict_contains d k \<longleftrightarrow> map_of d k \<noteq> None"
  by (simp add: dict_contains_def split: option.splits)

text \<open>
  Claim C5. For a username that is already in \<open>users\<close>, \<open>register_user\<close> returns
  \<open>False\<close> and the manager, with its users and its users file, is unchanged. For a
  username that is not there, it returns \<open>True\<close>, the new user is stored under that key,
  the other keys keep their users, the users file is rewritten from the store, and a second
  call with the same username (whatever the password) returns \<open>False\<close> and changes
  nothing.
\<close>
theorem register_user_rejects_duplicates:
  "(dict_contains (users s) name \<longrightarrow>
      register_user s name pw = (False, ''Sorry! User already exists.'', s))
   \<and> (\<not> dict_contains (users s) name \<longrightarrow>
      (\<exists>s'. register_user s name pw = (True, ''User registered successfully.'', s') \<and>
         map_of (users s') name = Some \<lparr>username = name, password = pw\<rparr> \<and>
         (\<forall>other. other \<noteq> name \<longrightarrow> map_of (users s') other = map_of (users s) other) \<and>
         users_file s' = Array (map snd (users s')) \<and>
         current_user s' = current_user s \<and> financial_records s' = financial_records s \<and>
         finance_file s' = finance_file s \<and>
         (\<forall>pw'. register_user s' name pw' = (False, ''Sorry! User already exists.'', s'))))"
  by (simp add: register_user_def save_users_def User_def update_conv' dict_contains_iff)

theorem register_user_witness:
  "dict_contains (users (manager_of None [])) ''ann''
   \<and> register_user (manager_of None []) ''ann'' ''Other''
       = (False, ''Sorry! User already exists.'', manager_of None [])
   \<and> \<not> dict_contains (users (manager_of None [])) ''bob''
   \<and> (\<exists>s'. register_user (manager_of None []) ''bob'' ''pw'' = (True, ''User registered successfully.'', s')
         \<and> map_of (users s') ''bob'' = Some \<lparr>username = ''bob'', password = ''pw''\<rparr>
         \<and> register_user s' ''bob'' ''pw2'' = (False, ''Sorry! User already exists.'', s'))"
proof -
  have p: "dict_contains (users (manager_of None [])) ''ann''"
    by (simp add: manager_of_def dict_contains_def)
  have q: "\<not> dict_contains (users (manager_of None [])) ''bob''"
    by (simp add: manager_of_def dict_contains_def)
  from register_user_rejects_duplicates [of "manager_of None []" "''ann''" "''Other''"] p
  have a: "register_user (manager_of None []) ''ann'' ''Other''
       = (False, ''Sorry! User already exists.'', manager_of None [])" by blast
  from register_user_rejects_duplicates [of "manager_of None []" "''bob''" "''pw''"] q
  have b: "\<exists>s'. register_user (manager_of None []) ''bob'' ''pw'' = (True, ''User registered successfully.'', s')
         \<and> map_of (users s') ''bob'' = Some \<lparr>username = ''bob'', password = ''pw''\<rparr>
         \<and> register_user s' ''bob'' ''pw2'' = (False, ''Sorry! User already exists.'', s')"
    by blast
  from p q a b show ?thesis by blast
qed

text \<open>
  Claim C6. \<open>authenticate_user\<close> returns \<open>True\<close> if and only if the username is a key
  of \<open>users\<close> and the stored password is equal to the one supplied (equality of strings:
  case-sensitive, no hashing). When it returns \<open>True\<close> the current user becomes that
  stored user and nothing else changes; when it returns \<open>False\<close> the manager, current
  user included, is unchanged.
\<close>
theorem authenticate_user_iff_credentials_match:
  "(fst (authenticate_user s name pw) \<longleftrightarrow> (\<exists>u. map_of (users s) name = Some u \<and> password u = pw))
   \<and> (fst (authenticate_user s name pw) \<longrightarrow>
        snd (snd (authenticate_user s name pw)) = s\<lparr>current_user := map_of (users s) name\<rparr>)
   \<and> (\<not> fst (authenticate_user s name pw) \<longrightarrow> snd (snd (authenticate_user s name pw)) = s)"
  by (simp add: authenticate_user_def split: option.splits)

theorem authenticate_user_witness:
  "fst (authenticate_user (manager_of None []) ''ann'' ''Secret1'')
   \<and> current_user (snd (snd (authenticate_user (manager_of None []) ''ann'' ''Secret1''))) = Some ann
   \<and> \<not> fst (authenticate_user (manager_of None []) ''ann'' ''secret1'')
   \<and> snd (snd (authenticate_user (manager_of None []) ''ann'' ''secret1'')) = manager_of None []
   \<and> \<not> fst (authenticate_user (manager_of None []) ''bob'' ''Secret1'')"
proof -
  have u: "map_of (users (manager_of None [])) ''ann'' = Some ann"
       "map_of (users (manager_of None [])) ''bob'' = None"
       "password ann = ''Secret1''"
    by (simp_all add: manager_of_def ann_def)
  from authenticate_user_iff_credentials_match [of "manager_of None []" "''ann''" "''Secret1''"] u
  have a: "fst (authenticate_user (manager_of None []) ''ann'' ''Secret1'')
     \<and> current_user (snd (snd (authenticate_user (manager_of None []) ''ann'' ''Secret1''))) = Some ann"
    by simp
  from authenticate_user_iff_credentials_match [of "manager_of None []" "''ann''" "''secret1''"] u
  have b: "\<not> fst (authenticate_user (manager_of None []) ''ann'' ''secret1'')
     \<and> snd (snd (authenticate_user (manager_of None []) ''ann'' ''secret1'')) = manager_of None []"
    by simp
  from authenticate_user_iff_credentials_match [of "manager_of None []" "''bob''" "''Secret1''"] u
  have c: "\<not> fst (authenticate_user (manager_of None []) ''bob'' ''Secret1'')"
    by simp
  from a b c show ?thesis by blast
qed

section \<open>Totals and savings\<close>

text \<open>
  Claim C2. For a logged-in user \<open>calculate_totals\<close> returns the pair of the sum of the
  amounts of the user's records of type \<open>''income''\<close> and the sum of the amounts of those
  of type \<open>''expense''\<close>; \<open>calculate_savings\<close> returns the first sum minus the second;
  with no records both totals and the savings are \<open>0\<close>; neither changes the manager.
  The witness is the example of the claim: amounts 100 (income) and 30 (expense) give
  \<open>(100, 30)\<close> and savings 70.
\<close>
theorem calculate_totals_and_savings:
  fixes s :: "'a::group_add manager"
  shows "\<forall>u. current_user s = Some u \<longrightarrow>
     fst (calculate_totals s)
       = (Some (sum_list (map amount (filter (\<lambda>r. record_type r = ''income'') (user_records s (username u))))),
          Some (sum_list (map amount (filter (\<lambda>r. record_type r = ''expense'') (user_records s (username u))))))
     \<and> fst (calculate_savings s)
       = Some (sum_list (map amount (filter (\<lambda>r. record_type r = ''income'') (user_records s (username u))))
               - sum_list (map amount (filter (\<lambda>r. record_type r = ''expense'') (user_records s (username u)))))
     \<and> (user_records s (username u) = [] \<longrightarrow>
          fst (calculate_totals s) = (Some 0, Some 0) \<and> fst (calculate_savings s) = Some 0)
     \<and> snd (snd (calculate_totals s)) = s \<and> snd (snd (calculate_savings s)) = s"
  by (simp add: calculate_totals_def calculate_savings_def Let_def py_sum_sum_list)

theorem calculate_totals_witness:
  "current_user (manager_of (Some ann) [(''ann'', [salary, lunch])]) = Some ann
   \<and> fst (calculate_totals (manager_of (Some ann) [(''ann'', [salary, lunch])])) = (Some 100, Some 30)
   \<and> fst (calculate_savings (manager_of (Some ann) [(''ann'', [salary, lunch])])) = Some 70
   \<and> fst (calculate_totals (manager_of (Some ann) [])) = (Some 0, Some 0)
   \<and> fst (calculate_savings (manager_of (Some ann) [])) = Some 0"
proof -
  let ?m = "manager_of (Some ann) [(''ann'', [salary, lunch])]"
  have h: "current_user ?m = Some ann" "current_user (manager_of (Some ann) []) = Some ann"
    by (simp_all add: sample_records)
  have r: "user_records ?m (username ann) = [salary, lunch]"
          "user_records (manager_of (Some ann) []) (username ann) = []"
    by (simp_all add: sample_records dict_get_def ann_def)
  note t1 = calculate_totals_and_savings [of ?m, rule_format, OF h(1), unfolded r]
  from t1 have a: "fst (calculate_totals ?m) = (Some 100, Some 30) \<and> fst (calculate_savings ?m) = Some 70"
    by (simp add: salary_def lunch_def)
  note t2 = calculate_totals_and_savings [of "manager_of (Some ann) []", rule_format, OF h(2), unfolded r]
  from t2 have b: "fst (calculate_totals (manager_of (Some ann) [])) = (Some 0, Some 0)
           \<and> fst (calculate_savings (manager_of (Some ann) [])) = Some 0"
    by simp
  from h a b show ?thesis by blast
qed

text \<open>
  Claim C10. With nobody logged in \<open>calculate_totals\<close> returns \<open>(None, None)\<close> and
  \<open>calculate_savings\<close> returns \<open>None\<close>; with a user logged in both return numbers
  (\<open>Some\<close>), so the two cases cannot be confused, even when the totals are zero.
\<close>
theorem not_logged_in_gives_None:
  fixes s :: "'a::{zero,plus,minus} manager"
  shows "(current_user s = None \<longrightarrow>
            fst (calculate_totals s) = (None, None) \<and> fst (calculate_savings s) = None)
         \<and> (current_user s \<noteq> None \<longrightarrow>
            (\<exists>a b. fst (calculate_totals s) = (Some a, Some b)) \<and> (\<exists>c. fst (calculate_savings s) = Some c))"
  by (auto simp add: calculate_totals_def calculate_savings_def Let_def)

theorem not_logged_in_witness:
  "current_user (manager_of None [(''ann'', [salary, lunch])]) = None
   \<and> fst (calculate_totals (manager_of None [(''ann'', [salary, lunch])])) = (None, None)
   \<and> fst (calculate_savings (manager_of None [(''ann'', [salary, lunch])])) = None
   \<and> current_user (manager_of (Some ann) []) \<noteq> None
   \<and> fst (calculate_totals (manager_of (Some ann) [])) \<noteq> (None, None)
   \<and> fst (calculate_savings (manager_of (Some ann) [])) \<noteq> None"
proof -
  have h: "current_user (manager_of None [(''ann'', [salary, lunch])]) = None"
          "current_user (manager_of (Some ann) []) \<noteq> None"
    by (simp_all add: sample_records)
  from not_logged_in_gives_None [of "manager_of None [(''ann'', [salary, lunch])]"] h(1)
  have a: "fst (calculate_totals (manager_of None [(''ann'', [salary, lunch])])) = (None, None)
     \<and> fst (calculate_savings (manager_of None [(''ann'', [salary, lunch])])) = None"
    by blast
  from not_logged_in_gives_None [of "manager_of (Some ann) []"] h(2)
  have b: "fst (calculate_totals (manager_of (Some ann) [])) \<noteq> (None, None)
     \<and> fst (calculate_savings (manager_of (Some ann) [])) \<noteq> None"
    by auto
  from h a b show ?thesis by blast
qed

section \<open>Adding and listing records\<close>

lemma add_record_logged_in:
  assumes "current_user s = Some u"
  shows "\<exists>s'. add_record today s descr amt cat rtype = (''Record added successfully!!!.'', s')
           \<and> user_records s' (username u)
               = user_records s (username u)
                   @ [\<lparr>description = descr, amount = amt, category = cat, record_type = rtype, date = today\<rparr>]
           \<and> (\<forall>name. name \<noteq> username u \<longrightarrow> user_records s' name = user_records s name)
           \<and> current_user s' = Some u \<and> users s' = users s \<and> users_file s' = users_file s
           \<and> finance_file s' = Array (records_to_save (financial_records s'))"
  using assms
  by (simp add: add_record_def Let_def FinancialRecord_def user_records_def dict_get_def
        dict_contains_def save_financial_records_def update_conv' split: option.splits)

lemma add_records_logged_in:
  "current_user s = Some u \<Longrightarrow>
     user_records (add_records s calls) (username u) = user_records s (username u) @ map added_record calls
     \<and> current_user (add_records s calls) = Some u"
proof (induction calls arbitrary: s)
  case Nil
  then show ?case by (simp add: add_records_def)
next
  case (Cons call calls)
  obtain today descr amt cat rtype where call: "call = (today, descr, amt, cat, rtype)"
    by (cases call) auto
  from add_record_logged_in [OF Cons.prems, of today descr amt cat rtype]
  obtain s' where s': "add_record today s descr amt cat rtype = (''Record added successfully!!!.'', s')"
    and recs: "user_records s' (username u) = user_records s (username u) @ [added_record call]"
    and cu: "current_user s' = Some u"
    by (auto simp add: call added_record_def)
  have step: "add_records s (call # calls) = add_records s' calls"
    by (simp add: add_records_def call s')
  from Cons.IH [OF cu] show ?case
    by (simp add: step recs)
qed

lemma display_records_logged_in:
  "current_user s = Some u \<Longrightarrow>
     display_records s =
       (if user_records s (username u) = [] then ([Text ''No records found at this time.''], s)
        else (Text (CHR 0x0A # ''Here are Your Financial Records:'')
                # map (\<lambda>(index, record). Entry index record) (enumerate 0 (user_records s (username u))),
              s))"
  by (simp add: display_records_def user_records_def dict_get_def dict_contains_def
        split: option.splits)

text \<open>
  Claim C4. For a logged-in user \<open>add_record\<close> appends the new record, dated with the day
  of the call, at the end of that user's records and leaves the records of the other users
  alone. After a run of N calls the user's records are the earlier ones followed by the N
  new ones in the order of the calls; if the user had none before, \<open>display_records\<close>
  then prints the heading and exactly N record lines, numbered from 0, in that order. For
  a user with no records \<open>display_records\<close> prints the no-records message and no record
  line. \<open>display_records\<close> never changes the manager.
\<close>
theorem add_record_appends_and_display_lists:
  "\<forall>u. current_user s = Some u \<longrightarrow>
     (\<exists>s'. add_record today s descr amt cat rtype = (''Record added successfully!!!.'', s')
        \<and> user_records s' (username u)
            = user_records s (username u)
                @ [\<lparr>description = descr, amount = amt, category = cat, record_type = rtype, date = today\<rparr>]
        \<and> (\<forall>name. name \<noteq> username u \<longrightarrow> user_records s' name = user_records s name))
     \<and> user_records (add_records s calls) (username u)
         = user_records s (username u) @ map added_record calls
     \<and> (user_records s (username u) = [] \<and> calls \<noteq> [] \<longrightarrow>
          display_records (add_records s calls)
            = (Text (CHR 0x0A # ''Here are Your Financial Records:'')
                 # map (\<lambda>(index, record). Entry index record) (enumerate 0 (map added_record calls)),
               add_records s calls)
          \<and> length (enumerate 0 (map added_record calls)) = length calls)
     \<and> (user_records s (username u) = [] \<longrightarrow>
          display_records s = ([Text ''No records found at this time.''], s))
     \<and> snd (display_records s) = s"
proof (intro allI impI)
  fix u
  assume cu: "current_user s = Some u"
  from add_record_logged_in [OF cu, of today descr amt cat rtype]
  have one: "\<exists>s'. add_record today s descr amt cat rtype = (''Record added successfully!!!.'', s')
        \<and> user_records s' (username u)
            = user_records s (username u)
                @ [\<lparr>description = descr, amount = amt, category = cat, record_type = rtype, date = today\<rparr>]
        \<and> (\<forall>name. name \<noteq> username u \<longrightarrow> user_records s' name = user_records s name)"
    by blast
  from add_records_logged_in [OF cu, of calls]
  have many: "user_records (add_records s calls) (username u)
                = user_records s (username u) @ map added_record calls"
    and cu': "current_user (add_records s calls) = Some u"
    by simp_all
  have shown: "user_records s (username u) = [] \<and> calls \<noteq> [] \<longrightarrow>
          display_records (add_records s calls)
            = (Text (CHR 0x0A # ''Here are Your Financial Records:'')
                 # map (\<lambda>(index, record). Entry index record) (enumerate 0 (map added_record calls)),
               add_records s calls)
          \<and> length (enumerate 0 (map added_record calls)) = length calls"
    by (simp add: display_records_logged_in [OF cu'] many)
  have none: "user_records s (username u) = [] \<longrightarrow>
          display_records s = ([Text ''No records found at this time.''], s)"
    by (simp add: display_records_logged_in [OF cu])
  have same: "snd (display_records s) = s"
    by (simp add: display_records_logged_in [OF cu])
  from one many shown none same
  show "(\<exists>s'. add_record today s descr amt cat rtype = (''Record added successfully!!!.'', s')
        \<and> user_records s' (username u)
            = user_records s (username u)
                @ [\<lparr>description = descr, amount = amt, category = cat, record_type = rtype, date = today\<rparr>]
        \<and> (\<forall>name. name \<noteq> username u \<longrightarrow> user_records s' name = user_records s name))
     \<and> user_records (add_records s calls) (username u)
         = user_records s (username u) @ map added_record calls
     \<and> (user_records s (username u) = [] \<and> calls \<noteq> [] \<longrightarrow>
          display_records (add_records s calls)
            = (Text (CHR 0x0A # ''Here are Your Financial Records:'')
                 # map (\<lambda>(index, record). Entry index record) (enumerate 0 (map added_record calls)),
               add_records s calls)
          \<and> length (enumerate 0 (map added_record calls)) = length calls)
     \<and> (user_records s (username u) = [] \<longrightarrow>
          display_records s = ([Text ''No records found at this time.''], s))
     \<and> snd (display_records s) = s"
    by blast
qed

theorem add_record_witness:
  "current_user (manager_of (Some ann) []) = Some ann
   \<and> user_records (manager_of (Some ann) []) (username ann) = []
   \<and> fst (display_records
        (add_records (manager_of (Some ann) [])
           [(''2024-01-05'', ''salary'', 100, ''job'', ''income''),
            (''2024-01-06'', ''lunch'', 30, ''food'', ''expense'')]))
       = [Text (CHR 0x0A # ''Here are Your Financial Records:''), Entry 0 salary, Entry 1 lunch]
   \<and> display_records (manager_of (Some ann) [])
       = ([Text ''No records found at this time.''], manager_of (Some ann) [])"
proof -
  let ?m = "manager_of (Some ann) []"
  let ?calls = "[(''2024-01-05'', ''salary'', 100, ''job'', ''income''),
                 (''2024-01-06'', ''lunch'', 30, ''food'', ''expense'')]"
  have cu: "current_user ?m = Some ann" by (simp add: sample_records)
  have e: "user_records ?m (username ann) = []" by (simp add: sample_records dict_get_def)
  note t = add_record_appends_and_display_lists [of ?m "''d''" "''x''" 0 "''c''" "''t''" ?calls, rule_format, OF cu]
  from t e have "display_records (add_records ?m ?calls)
            = (Text (CHR 0x0A # ''Here are Your Financial Records:'')
                 # map (\<lambda>(index, record). Entry index record) (enumerate 0 (map added_record ?calls)),
               add_records ?m ?calls)"
    by simp
  then have a: "fst (display_records (add_records ?m ?calls))
       = [Text (CHR 0x0A # ''Here are Your Financial Records:''), Entry 0 salary, Entry 1 lunch]"
    by (simp add: added_record_def salary_def lunch_def)
  from t e have b: "display_records ?m = ([Text ''No records found at this time.''], ?m)"
    by blast
  from cu e a b show ?thesis by blast
qed

section \<open>Spending by category\<close>

lemma groupby_sum_keys: "map fst (groupby_sum series_sum rows) = sort (remdups (map fst rows))"
  by (simp add: groupby_sum_def comp_def)

lemma groupby_sum_value:
  "(k, v) \<in> set (groupby_sum series_sum rows)
     \<Longrightarrow> v = series_sum (map snd (filter (\<lambda>row. fst row = k) rows))"
  by (auto simp add: groupby_sum_def)

lemma groupby_sum_category:
  assumes "(c, tot) \<in> set (groupby_sum series_sum (map (\<lambda>record. (category record, amount record)) xs))"
  shows "tot = series_sum (map amount (filter (\<lambda>r. category r = c) xs))"
proof -
  have "map snd (filter (\<lambda>row. fst row = c) (map (\<lambda>record. (category record, amount record)) xs))
          = map amount (filter (\<lambda>r. category r = c) xs)"
    by (induction xs) simp_all
  with groupby_sum_value [OF assms] show ?thesis by simp
qed

lemma wrap_int64_in_range:
  "- 9223372036854775808 \<le> n \<Longrightarrow> n < 9223372036854775808 \<Longrightarrow> wrap_int64 n = n"
  by (simp add: wrap_int64_def)

lemma wrap_int64_add_left: "wrap_int64 (wrap_int64 a + x) = wrap_int64 (a + x)"
proof -
  have "(wrap_int64 a + x + 9223372036854775808) mod 18446744073709551616
          = ((a + 9223372036854775808) mod 18446744073709551616 + x) mod 18446744073709551616"
    by (simp add: wrap_int64_def)
  also have "\<dots> = (a + 9223372036854775808 + x) mod 18446744073709551616"
    by (rule mod_add_left_eq)
  also have "\<dots> = (a + x + 9223372036854775808) mod 18446744073709551616"
    by (simp add: algebra_simps)
  finally show ?thesis
    by (simp add: wrap_int64_def)
qed

lemma int64_fold_wrap:
  "foldl (\<lambda>acc x. wrap_int64 (acc + x)) (wrap_int64 a) xs = wrap_int64 (a + sum_list xs)"
proof (induction xs arbitrary: a)
  case Nil
  then show ?case by simp
next
  case (Cons x xs)
  have "foldl (\<lambda>acc x. wrap_int64 (acc + x)) (wrap_int64 a) (x # xs)
          = foldl (\<lambda>acc x. wrap_int64 (acc + x)) (wrap_int64 (a + x)) xs"
    by (simp add: wrap_int64_add_left)
  also have "\<dots> = wrap_int64 (a + x + sum_list xs)"
    by (rule Cons.IH)
  finally show ?case
    by (simp add: add.assoc)
qed

lemma int64_sum_wraps: "int64_sum xs = wrap_int64 (sum_list xs)"
proof -
  have "wrap_int64 0 = 0" by (simp add: wrap_int64_def)
  with int64_fold_wrap [of 0 xs] show ?thesis
    by (simp add: int64_sum_def)
qed

text \<open>
  Claim C7 as stated says that a user without expense records gets an empty result that
  is not the no-expenses message. For a user whose only record is an income, the method
  prints exactly that message, and not a table without rows.
\<close>
theorem view_spending_distribution_no_expense_counterexample:
  "view_spending_distribution sample_to_datetime int64_sum (manager_of (Some ann) [(''ann'', [salary])])
     = Inr ([Message ''No expenses recorded.''], manager_of (Some ann) [(''ann'', [salary])])
   \<and> view_spending_distribution sample_to_datetime int64_sum (manager_of (Some ann) [(''ann'', [salary])])
     \<noteq> Inr ([Message (CHR 0x0A # ''Spending Distribution by Category:''), Frame []],
            manager_of (Some ann) [(''ann'', [salary])])"
  by (simp add: view_spending_distribution_def Let_def sample_records dict_get_def ann_def salary_def
        sample_to_datetime_def)

text \<open>
  Claim C7, amended. For a logged-in user:
  \<^item> with no records, \<open>view_spending_distribution\<close> prints the no-records message;
  \<^item> with records whose dates pandas cannot read, it ends with the exception;
  \<^item> with records whose dates pandas reads, some of them of type \<open>''expense''\<close>, it prints
    a table with one row for each category of the expense records, in ascending order
    of the category, and the amount of a row is the pandas sum of the amounts of the
    expense records of that category, in their order;
  \<^item> with records whose dates pandas reads, none of them an expense, it prints
    \<open>''No expenses recorded.''\<close> and no table.

  The manager is unchanged in every case. The pandas sum of an \<^verbatim>\<open>int64\<close> column is the
  exact sum wrapped around in 64 bits, and so the exact sum whenever that lies between
  \<open>- 2 ^ 63\<close> and \<open>2 ^ 63 - 1\<close>. The witness has the example of the claim (food 20, food 10
  and rent 50 give food 30 and rent 50) and a sum that wraps.
\<close>
theorem view_spending_distribution_sums_by_category:
  fixes s :: "'a manager" and series_sum :: "'a list \<Rightarrow> 'a"
  shows "(\<forall>u. current_user s = Some u \<longrightarrow>
      (user_records s (username u) = [] \<longrightarrow>
         view_spending_distribution to_datetime series_sum s
           = Inr ([Message ''No records available to calculate spending distribution.''], s))
      \<and> (user_records s (username u) \<noteq> []
           \<and> to_datetime (map date (user_records s (username u))) = None \<longrightarrow>
         view_spending_distribution to_datetime series_sum s = Inl DateParseError)
      \<and> (\<forall>dates. user_records s (username u) \<noteq> []
            \<and> to_datetime (map date (user_records s (username u))) = Some dates \<longrightarrow>
          (filter (\<lambda>r. record_type r = ''expense'') (user_records s (username u)) \<noteq> [] \<longrightarrow>
             (\<exists>rows. view_spending_distribution to_datetime series_sum s
                       = Inr ([Message (CHR 0x0A # ''Spending Distribution by Category:''),
                               Frame rows], s)
                \<and> sorted (map fst rows) \<and> distinct (map fst rows)
                \<and> set (map fst rows)
                    = category ` set (filter (\<lambda>r. record_type r = ''expense'')
                                        (user_records s (username u)))
                \<and> (\<forall>c tot. (c, tot) \<in> set rows \<longrightarrow>
                      tot = series_sum (map amount (filter (\<lambda>r. category r = c)
                              (filter (\<lambda>r. record_type r = ''expense'')
                                 (user_records s (username u))))))))
          \<and> (filter (\<lambda>r. record_type r = ''expense'') (user_records s (username u)) = [] \<longrightarrow>
               view_spending_distribution to_datetime series_sum s
                 = Inr ([Message ''No expenses recorded.''], s))))
    \<and> (\<forall>xs. int64_sum xs = wrap_int64 (sum_list xs))
    \<and> (\<forall>n. - 9223372036854775808 \<le> n \<and> n < 9223372036854775808 \<longrightarrow> wrap_int64 n = n)"
proof (intro conjI allI impI)
  fix u
  assume "current_user s = Some u" and "user_records s (username u) = []"
  then show "view_spending_distribution to_datetime series_sum s
           = Inr ([Message ''No records available to calculate spending distribution.''], s)"
    by (simp add: view_spending_distribution_def)
next
  fix u
  assume "current_user s = Some u"
    and "user_records s (username u) \<noteq> []
           \<and> to_datetime (map date (user_records s (username u))) = None"
  then show "view_spending_distribution to_datetime series_sum s = Inl DateParseError"
    by (simp add: view_spending_distribution_def Let_def)
next
  fix u :: user and dates :: "'b list"
  let ?ex = "filter (\<lambda>r. record_type r = ''expense'') (user_records s (username u))"
  let ?rows = "groupby_sum series_sum (map (\<lambda>record. (category record, amount record)) ?ex)"
  assume cu: "current_user s = Some u"
    and h: "user_records s (username u) \<noteq> []
            \<and> to_datetime (map date (user_records s (username u))) = Some dates"
    and ne: "?ex \<noteq> []"
  have run: "view_spending_distribution to_datetime series_sum s
                = Inr ([Message (CHR 0x0A # ''Spending Distribution by Category:''), Frame ?rows], s)"
    using cu h ne by (simp add: view_spending_distribution_def Let_def)
  have k: "sorted (map fst ?rows) \<and> distinct (map fst ?rows) \<and> set (map fst ?rows) = category ` set ?ex"
    by (simp only: groupby_sum_keys) (simp add: image_comp comp_def)
  have v: "\<forall>c tot. (c, tot) \<in> set ?rows \<longrightarrow>
               tot = series_sum (map amount (filter (\<lambda>r. category r = c) ?ex))"
  proof (intro allI impI)
    fix c tot
    assume "(c, tot) \<in> set ?rows"
    then show "tot = series_sum (map amount (filter (\<lambda>r. category r = c) ?ex))"
      by (rule groupby_sum_category)
  qed
  from run k v
  show "\<exists>rows. view_spending_distribution to_datetime series_sum s
                  = Inr ([Message (CHR 0x0A # ''Spending Distribution by Category:''), Frame rows], s)
           \<and> sorted (map fst rows) \<and> distinct (map fst rows)
           \<and> set (map fst rows) = category ` set ?ex
           \<and> (\<forall>c tot. (c, tot) \<in> set rows \<longrightarrow>
                 tot = series_sum (map amount (filter (\<lambda>r. category r = c) ?ex)))"
    by blast
next
  fix u and dates :: "'b list"
  assume "current_user s = Some u"
    and "user_records s (username u) \<noteq> []
            \<and> to_datetime (map date (user_records s (username u))) = Some dates"
    and "filter (\<lambda>r. record_type r = ''expense'') (user_records s (username u)) = []"
  then show "view_spending_distribution to_datetime series_sum s
               = Inr ([Message ''No expenses recorded.''], s)"
    by (simp add: view_spending_distribution_def Let_def)
next
  fix xs
  show "int64_sum xs = wrap_int64 (sum_list xs)"
    by (rule int64_sum_wraps)
next
  fix n :: int
  assume "- 9223372036854775808 \<le> n \<and> n < 9223372036854775808"
  then show "wrap_int64 n = n"
    by (simp add: wrap_int64_in_range)
qed

theorem view_spending_distribution_witness:
  "current_user (manager_of (Some ann)
       [(''ann'', [expense ''food'' 20, expense ''rent'' 50, expense ''food'' 10])]) = Some ann
   \<and> (\<exists>rows. view_spending_distribution sample_to_datetime int64_sum
         (manager_of (Some ann) [(''ann'', [expense ''food'' 20, expense ''rent'' 50, expense ''food'' 10])])
       = Inr ([Message (CHR 0x0A # ''Spending Distribution by Category:''), Frame rows],
              manager_of (Some ann) [(''ann'', [expense ''food'' 20, expense ''rent'' 50, expense ''food'' 10])])
       \<and> sorted (map fst rows) \<and> distinct (map fst rows))
   \<and> view_spending_distribution sample_to_datetime int64_sum
         (manager_of (Some ann) [(''ann'', [expense ''food'' 20, expense ''rent'' 50, expense ''food'' 10])])
       = Inr ([Message (CHR 0x0A # ''Spending Distribution by Category:''),
               Frame [(''food'', 30), (''rent'', 50)]],
              manager_of (Some ann) [(''ann'', [expense ''food'' 20, expense ''rent'' 50, expense ''food'' 10])])
   \<and> view_spending_distribution sample_to_datetime int64_sum (manager_of (Some ann) [])
       = Inr ([Message ''No records available to calculate spending distribution.''],
              manager_of (Some ann) [])
   \<and> int64_sum [9223372036854775807, 1] = - 9223372036854775808
   \<and> view_spending_distribution sample_to_datetime int64_sum
         (manager_of (Some ann) [(''ann'', [expense ''food'' 9223372036854775807, expense ''food'' 1])])
       = Inr ([Message (CHR 0x0A # ''Spending Distribution by Category:''),
               Frame [(''food'', - 9223372036854775808)]],
              manager_of (Some ann) [(''ann'', [expense ''food'' 9223372036854775807, expense ''food'' 1])])"
proof -
  let ?m = "manager_of (Some ann) [(''ann'', [expense ''food'' 20, expense ''rent'' 50, expense ''food'' 10])]"
  let ?big = "manager_of (Some ann) [(''ann'', [expense ''food'' 9223372036854775807, expense ''food'' 1])]"
  note inst = view_spending_distribution_sums_by_category
               [where s = ?m and to_datetime = sample_to_datetime and series_sum = int64_sum]
  note inst0 = view_spending_distribution_sums_by_category
               [where s = "manager_of (Some ann) []" and to_datetime = sample_to_datetime
                  and series_sum = int64_sum]
  have r: "user_records ?m (username ann) = [expense ''food'' 20, expense ''rent'' 50, expense ''food'' 10]"
    by (simp add: sample_records dict_get_def ann_def)
  have cu: "current_user ?m = Some ann"
    by (simp add: sample_records)
  have h: "user_records ?m (username ann) \<noteq> []
            \<and> sample_to_datetime (map date (user_records ?m (username ann)))
                = Some (map date (user_records ?m (username ann)))"
    unfolding r by (simp add: sample_to_datetime_def)
  have ne: "filter (\<lambda>r. record_type r = ''expense'') (user_records ?m (username ann)) \<noteq> []"
    unfolding r by (simp add: expense_def)
  from inst [THEN conjunct1, rule_format, OF cu, THEN conjunct2, THEN conjunct2, rule_format, OF h,
            THEN conjunct1, rule_format, OF ne]
  have a: "\<exists>rows. view_spending_distribution sample_to_datetime int64_sum ?m
       = Inr ([Message (CHR 0x0A # ''Spending Distribution by Category:''), Frame rows], ?m)
       \<and> sorted (map fst rows) \<and> distinct (map fst rows)"
    by blast
  have sums: "int64_sum [20, 10] = 30" "int64_sum [50] = 50"
             "int64_sum [9223372036854775807, 1] = - 9223372036854775808"
    by (simp_all add: inst [THEN conjunct2, THEN conjunct1, rule_format] wrap_int64_def)
  have b: "view_spending_distribution sample_to_datetime int64_sum ?m
       = Inr ([Message (CHR 0x0A # ''Spending Distribution by Category:''),
               Frame [(''food'', 30), (''rent'', 50)]], ?m)"
    by (simp add: view_spending_distribution_def Let_def sample_records dict_get_def ann_def
          expense_def groupby_sum_def less_eq_char_def less_char_def sample_to_datetime_def sums)
  have cu0: "current_user (manager_of (Some ann) []) = Some ann"
    by (simp add: sample_records)
  have e0: "user_records (manager_of (Some ann) []) (username ann) = []"
    by (simp add: sample_records dict_get_def)
  from inst0 [THEN conjunct1, rule_format, OF cu0, THEN conjunct1, rule_format, OF e0]
  have c: "view_spending_distribution sample_to_datetime int64_sum (manager_of (Some ann) [])
       = Inr ([Message ''No records available to calculate spending distribution.''],
              manager_of (Some ann) [])" .
  have d: "view_spending_distribution sample_to_datetime int64_sum ?big
       = Inr ([Message (CHR 0x0A # ''Spending Distribution by Category:''),
               Frame [(''food'', - 9223372036854775808)]], ?big)"
    by (simp add: view_spending_distribution_def Let_def sample_records dict_get_def ann_def
          expense_def groupby_sum_def sample_to_datetime_def sums)
  from cu a b c sums(3) d show ?thesis by blast
qed

section \<open>Reports by period\<close>

text \<open>
  Claim C9 as stated holds for every logged-in user. The test for records comes before
  the test of the period: for a logged-in user with no records and the period
  \<open>''yearly''\<close> the method prints the no-records message, not the invalid-period one.
\<close>
theorem generate_report_no_records_counterexample:
  "current_user (manager_of (Some ann) []) = Some ann
   \<and> ''yearly'' \<noteq> ''monthly'' \<and> ''yearly'' \<noteq> ''weekly''
   \<and> generate_report sample_to_datetime sample_to_period int64_sum (manager_of (Some ann) []) ''yearly''
       = Inr (None, Message ''No records available for generating reports.'', manager_of (Some ann) [])
   \<and> generate_report sample_to_datetime sample_to_period int64_sum (manager_of (Some ann) []) ''yearly''
       \<noteq> Inr (None, Message ''Invalid period specified.'', manager_of (Some ann) [])"
  by (simp add: generate_report_def Let_def sample_records dict_get_def)

text \<open>
  Claim C9, amended. For a logged-in user with at least one record, whose dates pandas
  reads, and a period other than \<open>''monthly''\<close> and \<open>''weekly''\<close>, \<open>generate_report\<close>
  prints the invalid-period message, returns \<open>None\<close> and leaves the manager unchanged.
  For a logged-in user with no records it prints the no-records message instead, whatever
  the period, returns \<open>None\<close> and leaves the manager unchanged.
\<close>
theorem generate_report_invalid_period:
  fixes s :: "'a manager" and to_period :: "string \<Rightarrow> 't \<Rightarrow> 'p::linorder"
    and series_sum :: "'a list \<Rightarrow> 'a"
  shows "(\<forall>u dates. current_user s = Some u \<and> user_records s (username u) \<noteq> []
            \<and> to_datetime (map date (user_records s (username u))) = Some dates
            \<and> period \<noteq> ''monthly'' \<and> period \<noteq> ''weekly'' \<longrightarrow>
           generate_report to_datetime to_period series_sum s period
             = Inr (None, Message ''Invalid period specified.'', s))
         \<and> (\<forall>u. current_user s = Some u \<and> user_records s (username u) = [] \<longrightarrow>
           generate_report to_datetime to_period series_sum s period
             = Inr (None, Message ''No records available for generating reports.'', s))"
  by (simp add: generate_report_def Let_def)

theorem generate_report_witness:
  "current_user (manager_of (Some ann) [(''ann'', [salary])]) = Some ann
   \<and> user_records (manager_of (Some ann) [(''ann'', [salary])]) (username ann) \<noteq> []
   \<and> ''yearly'' \<noteq> ''monthly'' \<and> ''yearly'' \<noteq> ''weekly''
   \<and> generate_report sample_to_datetime sample_to_period int64_sum
         (manager_of (Some ann) [(''ann'', [salary])]) ''yearly''
       = Inr (None, Message ''Invalid period specified.'', manager_of (Some ann) [(''ann'', [salary])])"
proof -
  let ?m = "manager_of (Some ann) [(''ann'', [salary])]"
  have h: "current_user ?m = Some ann \<and> user_records ?m (username ann) \<noteq> []
            \<and> sample_to_datetime (map date (user_records ?m (username ann)))
                = Some (map date (user_records ?m (username ann)))
            \<and> ''yearly'' \<noteq> ''monthly'' \<and> ''yearly'' \<noteq> ''weekly''"
    by (simp add: sample_records dict_get_def ann_def sample_to_datetime_def)
  from generate_report_invalid_period
         [where s = ?m and to_datetime = sample_to_datetime and period = "''yearly''"
            and to_period = sample_to_period and series_sum = int64_sum,
          THEN conjunct1, rule_format, OF h]
  have a: "generate_report sample_to_datetime sample_to_period int64_sum ?m ''yearly''
       = Inr (None, Message ''Invalid period specified.'', ?m)" .
  from h a show ?thesis by blast
qed

section \<open>Saving and loading the records\<close>

lemma update_new_key: "k \<notin> fst ` set d \<Longrightarrow> AList.update k v d = d @ [(k, v)]"
  by (induction d) auto

lemma update_last_key: "k \<notin> fst ` set d \<Longrightarrow> AList.update k v (d @ [(k, w)]) = d @ [(k, v)]"
  by (induction d) auto

lemma map_of_last_key: "k \<notin> fst ` set d \<Longrightarrow> map_of (d @ [(k, w)]) k = Some w"
  by (induction d) auto

lemma map_of_absent: "k \<notin> fst ` set d \<Longrightarrow> map_of d k = None"
  by (simp add: map_of_eq_None_iff)

lemma FinancialRecord_of_entry:
  "date r \<noteq> [] \<Longrightarrow>
     FinancialRecord today (e_description (to_entry name r)) (e_amount (to_entry name r))
       (e_category (to_entry name r)) (e_record_type (to_entry name r)) (e_date (to_entry name r)) = r"
  by (simp add: FinancialRecord_def to_entry_def)

lemma load_entry_first:
  assumes "name \<notin> fst ` set d" "date r \<noteq> []"
  shows "load_entry today d (to_entry name r) = d @ [(name, [r])]"
proof -
  have u: "e_username (to_entry name r) = name" by (simp add: to_entry_def)
  have c: "dict_contains d name = False"
    using assms(1) by (simp add: dict_contains_def map_of_absent)
  have d1: "AList.update name [] d = d @ [(name, [])]"
    using assms(1) by (rule update_new_key)
  have g: "dict_get (d @ [(name, [])]) name [] = []"
    by (simp only: dict_get_def map_of_last_key [OF assms(1)] option.case)
  have up: "AList.update name ([] @ [r]) (d @ [(name, [])]) = d @ [(name, [r])]"
    using update_last_key [OF assms(1), of "[r]" "[]"] by simp
  show ?thesis
    by (simp only: load_entry_def Let_def u FinancialRecord_of_entry [OF assms(2)] c
          not_False_eq_True if_True d1 g up)
qed

lemma load_entry_next:
  assumes "name \<notin> fst ` set d" "date r \<noteq> []"
  shows "load_entry today (d @ [(name, pre)]) (to_entry name r) = d @ [(name, pre @ [r])]"
proof -
  have u: "e_username (to_entry name r) = name" by (simp add: to_entry_def)
  have c: "dict_contains (d @ [(name, pre)]) name = True"
    by (simp only: dict_contains_def map_of_last_key [OF assms(1)] option.case)
  have g: "dict_get (d @ [(name, pre)]) name [] = pre"
    by (simp only: dict_get_def map_of_last_key [OF assms(1)] option.case)
  have up: "AList.update name (pre @ [r]) (d @ [(name, pre)]) = d @ [(name, pre @ [r])]"
    using assms(1) by (rule update_last_key)
  show ?thesis
    by (simp only: load_entry_def Let_def u FinancialRecord_of_entry [OF assms(2)] c
          not_True_eq_False if_False g up)
qed

lemma load_entries_next:
  "name \<notin> fst ` set d \<Longrightarrow> \<forall>r \<in> set records. date r \<noteq> [] \<Longrightarrow>
     foldl (load_entry today) (d @ [(name, pre)]) (map (to_entry name) records)
       = d @ [(name, pre @ records)]"
  by (induction records arbitrary: pre) (simp_all add: load_entry_next)

lemma load_entries_of_user:
  assumes "name \<notin> fst ` set d" "\<forall>r \<in> set records. date r \<noteq> []"
  shows "foldl (load_entry today) d (map (to_entry name) records)
           = (if records = [] then d else d @ [(name, records)])"
proof (cases records)
  case Nil
  then show ?thesis by simp
next
  case (Cons r rs)
  with assms have "foldl (load_entry today) (d @ [(name, [r])]) (map (to_entry name) rs)
                     = d @ [(name, [r] @ rs)]"
    by (intro load_entries_next) simp_all
  with assms Cons show ?thesis
    by (simp add: load_entry_first)
qed

lemma load_saved_records:
  "distinct (map fst d) \<Longrightarrow> fst ` set acc \<inter> fst ` set d = {} \<Longrightarrow>
   \<forall>(name, records) \<in> set d. \<forall>r \<in> set records. date r \<noteq> [] \<Longrightarrow>
     foldl (load_entry today) acc (records_to_save d)
       = acc @ filter (\<lambda>(name, records). records \<noteq> []) d"
proof (induction d arbitrary: acc)
  case Nil
  then show ?case by (simp add: records_to_save_def)
next
  case (Cons p d)
  obtain name records where p: "p = (name, records)" by (cases p)
  let ?acc' = "if records = [] then acc else acc @ [(name, records)]"
  from Cons.prems p have fresh: "name \<notin> fst ` set acc" and dates: "\<forall>r \<in> set records. date r \<noteq> []"
    by auto
  have first: "foldl (load_entry today) acc (map (to_entry name) records) = ?acc'"
    using fresh dates by (rule load_entries_of_user)
  from Cons.prems p have "distinct (map fst d)" and "fst ` set ?acc' \<inter> fst ` set d = {}"
    and "\<forall>(name, records) \<in> set d. \<forall>r \<in> set records. date r \<noteq> []"
    by auto
  then have "foldl (load_entry today) ?acc' (records_to_save d)
               = ?acc' @ filter (\<lambda>(name, records). records \<noteq> []) d"
    by (rule Cons.IH)
  then show ?case
    unfolding p by (cases "records = []") (simp_all add: records_to_save_def first)
qed

lemma map_of_filter_absent: "k \<notin> fst ` set d \<Longrightarrow> map_of (filter P d) k = None"
  by (induction d) auto

lemma dict_get_drop_empty:
  "distinct (map fst d) \<Longrightarrow>
     dict_get (filter (\<lambda>(name, records). records \<noteq> []) d) k [] = dict_get d k []"
  by (induction d) (auto simp add: dict_get_def map_of_filter_absent)

text \<open>
  Claim C8 as stated holds for every store. The file has one entry per record, so a user
  with an empty list has no entry: after the only record of \<open>ann\<close> is deleted the store
  is \<open>[(''ann'', [])]\<close>, and saving and loading it gives the empty store.
\<close>
theorem save_then_load_empty_user_counterexample:
  "financial_records (snd (delete_record (manager_of (Some ann) [(''ann'', [salary])]) 0))
     = [(''ann'', [])]
   \<and> financial_records
       (snd (load_financial_records ''2024-03-01''
          (save_financial_records (snd (delete_record (manager_of (Some ann) [(''ann'', [salary])]) 0)))))
     = []"
  by (simp add: delete_record_def Let_def user_records_def dict_get_def ann_def list_del_def
        save_financial_records_def load_financial_records_def records_to_save_def manager_of_def)

text \<open>
  Claim C8, amended. Let the keys of the record store be distinct (it is a dictionary) and
  every record have a date (the constructor gives it one). Saving the store and loading
  the file gives the store without the users whose list is empty: the other users are
  there in the same order, each with the same records (description, amount, category,
  type and date) in the same order, and \<^verbatim>\<open>get(name, [])\<close> gives the same list as before
  for every name. If no user has an empty list, the loaded store is equal to the saved one.
\<close>
theorem save_then_load_keeps_nonempty_users:
  "distinct (map fst (financial_records s))
   \<and> (\<forall>(name, records) \<in> set (financial_records s). \<forall>r \<in> set records. date r \<noteq> []) \<longrightarrow>
     load_financial_records today (save_financial_records s)
       = ([], (save_financial_records s)
                \<lparr>financial_records :=
                   filter (\<lambda>(name, records). records \<noteq> []) (financial_records s)\<rparr>)
     \<and> (\<forall>name. user_records (snd (load_financial_records today (save_financial_records s))) name
                  = user_records s name)
     \<and> ((\<forall>(name, records) \<in> set (financial_records s). records \<noteq> []) \<longrightarrow>
          financial_records (snd (load_financial_records today (save_financial_records s)))
            = financial_records s)"
proof (intro impI)
  assume h: "distinct (map fst (financial_records s))
   \<and> (\<forall>(name, records) \<in> set (financial_records s). \<forall>r \<in> set records. date r \<noteq> [])"
  have "foldl (load_entry today) [] (records_to_save (financial_records s))
          = [] @ filter (\<lambda>(name, records). records \<noteq> []) (financial_records s)"
    using h by (intro load_saved_records) simp_all
  then have run: "load_financial_records today (save_financial_records s)
       = ([], (save_financial_records s)
                \<lparr>financial_records :=
                   filter (\<lambda>(name, records). records \<noteq> []) (financial_records s)\<rparr>)"
    by (simp add: load_financial_records_def save_financial_records_def)
  have get: "\<forall>name. user_records (snd (load_financial_records today (save_financial_records s))) name
                  = user_records s name"
    using h by (simp add: run user_records_def dict_get_drop_empty)
  have all: "(\<forall>(name, records) \<in> set (financial_records s). records \<noteq> []) \<longrightarrow>
          financial_records (snd (load_financial_records today (save_financial_records s)))
            = financial_records s"
  proof
    assume "\<forall>(name, records) \<in> set (financial_records s). records \<noteq> []"
    then have "filter (\<lambda>(name, records). records \<noteq> []) (financial_records s) = financial_records s"
      by (intro filter_True) auto
    then show "financial_records (snd (load_financial_records today (save_financial_records s)))
            = financial_records s"
      by (simp add: run)
  qed
  from run get all
  show "load_financial_records today (save_financial_records s)
       = ([], (save_financial_records s)
                \<lparr>financial_records :=
                   filter (\<lambda>(name, records). records \<noteq> []) (financial_records s)\<rparr>)
     \<and> (\<forall>name. user_records (snd (load_financial_records today (save_financial_records s))) name
                  = user_records s name)
     \<and> ((\<forall>(name, records) \<in> set (financial_records s). records \<noteq> []) \<longrightarrow>
          financial_records (snd (load_financial_records today (save_financial_records s)))
            = financial_records s)"
    by blast
qed

theorem save_then_load_witness:
  "distinct (map fst (financial_records
       (manager_of None [(''ann'', [salary, lunch]), (''bob'', [expense ''rent'' 50])])))
   \<and> map (\<lambda>(name, records). map date records)
         (financial_records
            (manager_of None [(''ann'', [salary, lunch]), (''bob'', [expense ''rent'' 50])]))
       = [[''2024-01-05'', ''2024-01-06''], [''2024-02-01'']]
   \<and> financial_records (snd (load_financial_records ''2024-03-01''
        (save_financial_records
           (manager_of None [(''ann'', [salary, lunch]), (''bob'', [expense ''rent'' 50])]))))
       = [(''ann'', [salary, lunch]), (''bob'', [expense ''rent'' 50])]"
proof -
  let ?d = "[(''ann'', [salary, lunch]), (''bob'', [expense ''rent'' 50])]"
  let ?m = "manager_of None ?d"
  have f: "financial_records ?m = ?d" by (simp add: manager_of_def)
  have h1: "distinct (map fst (financial_records ?m))"
    unfolding f by simp
  have h2: "\<forall>(name, records) \<in> set (financial_records ?m). \<forall>r \<in> set records. date r \<noteq> []"
    unfolding f by (simp add: salary_def lunch_def expense_def)
  have h3: "\<forall>(name, records) \<in> set (financial_records ?m). records \<noteq> []"
    unfolding f by simp
  from save_then_load_keeps_nonempty_users [of ?m "''2024-03-01''"] h1 h2 h3
  have "financial_records (snd (load_financial_records ''2024-03-01'' (save_financial_records ?m)))
          = financial_records ?m"
    by blast
  then have a: "financial_records (snd (load_financial_records ''2024-03-01'' (save_financial_records ?m)))
          = ?d"
    unfolding f .
  have h4: "map (\<lambda>(name, records). map date records) (financial_records ?m)
              = [[''2024-01-05'', ''2024-01-06''], [''2024-02-01'']]"
    unfolding f by (simp add: salary_def lunch_def expense_def)
  from h1 h4 a show ?thesis by blast
qed

end
